theory Spec2Isabelle
  imports Main
begin

section \<open>JavaScript primitives used by the two screens\<close>

text \<open>
  Strings are lists of 8-bit characters, so the model covers the strings whose code units
  are below 256. The two emoji in the success alert titles and in the tip texts lie
  outside that range and are left out of the literals; nothing below depends on them.
\<close>

subsection \<open>Values of a parsed JSON body\<close>

datatype jsval =
    JUndefined
  | JNull
  | JBool bool
  | JNum int
  | JStr string
  | JArr "jsval list"
  | JObj "(string \<times> jsval) list"

text \<open>
  What a \<open>catch\<close> block can receive: the TypeError of a property read, the rejection
  of \<open>fetch\<close> or of \<open>response.json()\<close>, and an object made by \<open>new Error(message)\<close>.
  The constructor turns its argument into a string; that text is not modelled, so
  \<open>Error\<close> stands for any such object, whatever its message.
\<close>

datatype jserror = TypeError | FetchRejected | JsonRejected | Error

text \<open>
  A number of a body is kept as an integer, since the handlers only pass it on or test
  whether it is truthy; an object lists its properties, each name once.

  \<open>ToBoolean\<close>: \<open>undefined\<close>, \<open>null\<close>, \<open>false\<close>, \<open>0\<close> and the empty
  string are falsy, every array and object is truthy.
\<close>

fun truthy :: "jsval \<Rightarrow> bool" where
  "truthy JUndefined = False"
| "truthy JNull = False"
| "truthy (JBool b) = b"
| "truthy (JNum n) = (n \<noteq> 0)"
| "truthy (JStr s) = (s \<noteq> [])"
| "truthy (JArr xs) = True"
| "truthy (JObj fs) = True"

text \<open>\<open>a || b\<close>\<close>

definition or_else :: "jsval \<Rightarrow> jsval \<Rightarrow> jsval" where
  "or_else a b = (if truthy a then a else b)"

text \<open>
  \<open>data.detail\<close>, \<open>data.id\<close>, \<open>data.stream_key\<close>: reading a property of \<open>null\<close> or
  \<open>undefined\<close> throws a TypeError; an object gives the property or \<open>undefined\<close>; a
  boolean, number, string or array has none of the three names read here.
\<close>

fun getProp :: "jsval \<Rightarrow> string \<Rightarrow> jserror + jsval" where
  "getProp JUndefined k = Inl TypeError"
| "getProp JNull k = Inl TypeError"
| "getProp (JObj fs) k = Inr (case map_of fs k of None \<Rightarrow> JUndefined | Some v \<Rightarrow> v)"
| "getProp v k = Inr JUndefined"

subsection \<open>\<open>String.prototype.trim\<close> and \<open>String.prototype.split\<close>\<close>

text \<open>White space and line terminators among the code units below 256.\<close>

definition isWhiteSpace :: "char \<Rightarrow> bool" where
  "isWhiteSpace c =
     (c \<in> set [CHR 0x09, CHR 0x0A, CHR 0x0B, CHR 0x0C, CHR 0x0D, CHR 0x20, CHR 0xA0])"

definition trimStart :: "string \<Rightarrow> string" where
  "trimStart s = dropWhile isWhiteSpace s"

definition trimEnd :: "string \<Rightarrow> string" where
  "trimEnd s = rev (dropWhile isWhiteSpace (rev s))"

definition trim :: "string \<Rightarrow> string" where
  "trim s = trimEnd (trimStart s)"

text \<open>\<open>s.split(sep)\<close> for a one-character separator: never the empty list.\<close>

fun split :: "char \<Rightarrow> string \<Rightarrow> string list" where
  "split sep [] = [[]]"
| "split sep (c # cs) =
     (if c = sep then [] # split sep cs
      else (c # hd (split sep cs)) # tl (split sep cs))"

subsection \<open>Numbers: \<open>parseFloat\<close>, \<open>parseInt\<close> and \<open>x <= 0\<close>\<close>

text \<open>
  A parsed number is kept as the exact decimal the text denotes, \<open>Dec neg m e\<close> for
  \<open>(-1)^neg * m * 10^e\<close>, before it is rounded to a binary64 value; \<open>Infinity neg\<close> is
  the literal \<open>Infinity\<close> with its sign.
\<close>

datatype jsnum = NaN | Infinity bool | Dec bool nat int

definition isDigit :: "char \<Rightarrow> bool" where
  "isDigit c = (c \<in> set ''0123456789'')"

definition isHexDigit :: "char \<Rightarrow> bool" where
  "isHexDigit c = (c \<in> set ''0123456789abcdefABCDEF'')"

definition digitVal :: "char \<Rightarrow> nat" where
  "digitVal c =
     (if isDigit c then of_char c - 48
      else if c \<in> set ''abcdef'' then of_char c - 87
      else of_char c - 55)"

definition radixVal :: "nat \<Rightarrow> string \<Rightarrow> nat" where
  "radixVal r ds = foldl (\<lambda>a c. r * a + digitVal c) 0 ds"

text \<open>
  \<open>parseInt(s)\<close> with no radix: leading white space is dropped, then an optional sign,
  then an optional \<open>0x\<close>/\<open>0X\<close> selecting radix 16, then the longest run of digits of the
  radix; no digit gives \<open>NaN\<close>.
\<close>

definition parseInt :: "string \<Rightarrow> jsnum" where
  "parseInt s =
     (let S = trimStart s;
          neg = (S \<noteq> [] \<and> hd S = CHR ''-'');
          S1 = (if S \<noteq> [] \<and> (hd S = CHR ''+'' \<or> hd S = CHR ''-'') then tl S else S);
          hex = (take 2 S1 = ''0x'' \<or> take 2 S1 = ''0X'');
          S2 = (if hex then drop 2 S1 else S1);
          Z = takeWhile (if hex then isHexDigit else isDigit) S2
      in if Z = [] then NaN else Dec neg (radixVal (if hex then 16 else 10) Z) 0)"

text \<open>
  The exponent part of a decimal literal: \<open>e\<close> or \<open>E\<close>, an optional sign and at least
  one digit; anything else is not part of the number and counts as exponent 0.
\<close>

definition exponentPart :: "string \<Rightarrow> int" where
  "exponentPart r =
     (if r \<noteq> [] \<and> (hd r = CHR ''e'' \<or> hd r = CHR ''E'') then
        (let r1 = tl r;
             eneg = (r1 \<noteq> [] \<and> hd r1 = CHR ''-'');
             r2 = (if r1 \<noteq> [] \<and> (hd r1 = CHR ''+'' \<or> hd r1 = CHR ''-'') then tl r1 else r1);
             ds = takeWhile isDigit r2
         in if ds = [] then 0
            else if eneg then - int (radixVal 10 ds) else int (radixVal 10 ds))
      else 0)"

text \<open>
  \<open>parseFloat(s)\<close>: leading white space is dropped, then the longest prefix that is a
  signed decimal literal (\<open>Infinity\<close>, digits with an optional fraction, or a fraction
  starting with the point) is read; no such prefix gives \<open>NaN\<close>.
\<close>

definition parseFloat :: "string \<Rightarrow> jsnum" where
  "parseFloat s =
     (let S = trimStart s;
          neg = (S \<noteq> [] \<and> hd S = CHR ''-'');
          S1 = (if S \<noteq> [] \<and> (hd S = CHR ''+'' \<or> hd S = CHR ''-'') then tl S else S);
          ip = takeWhile isDigit S1;
          r1 = dropWhile isDigit S1;
          point = (r1 \<noteq> [] \<and> hd r1 = CHR ''.'');
          fp = (if point then takeWhile isDigit (tl r1) else []);
          r2 = (if point then dropWhile isDigit (tl r1) else r1)
      in if take 8 S1 = ''Infinity'' then Infinity neg
         else if ip = [] \<and> fp = [] then NaN
         else Dec neg (radixVal 10 (ip @ fp)) (exponentPart r2 - int (length fp)))"

text \<open>
  \<open>x <= 0\<close> on the binary64 value of a parsed number. \<open>NaN\<close> compares false with
  everything. Rounding to nearest, ties to even, sends a positive decimal to \<open>0\<close> exactly
  when it is at most \<open>2^-1075\<close>, half the least subnormal; no other rounding changes the
  comparison with zero.
\<close>

fun le_zero :: "jsnum \<Rightarrow> bool" where
  "le_zero NaN = False"
| "le_zero (Infinity neg) = neg"
| "le_zero (Dec neg m e) =
     (neg \<or> m = 0 \<or> (e < 0 \<and> int m * 2 ^ 1075 \<le> 10 ^ nat (- e)))"

section \<open>Effects shared by both screens\<close>

text \<open>
  What a press on an alert button does. The success handlers read \<open>data.id\<close> and
  \<open>data.stream_key\<close> only when the button is pressed, so the action keeps the body.
\<close>

datatype action =
    NoAction
  | NavigateCampaignDetail jsval
  | ResetForm
  | NavigateLiveStreaming jsval
  | OpenSettings

text \<open>
  The calls a handler makes, in program order: \<open>setIsLoading(b)\<close>, \<open>fetch(url, body)\<close>,
  \<open>Alert.alert(title, message, buttons)\<close> and \<open>console.error(label, error)\<close>.
\<close>

datatype 'p effect =
    SetIsLoading bool
  | Fetch string 'p
  | Alert string jsval "(string \<times> action) list"
  | ConsoleError string jserror

text \<open>
  How the awaited request ends: \<open>fetch\<close> rejects, \<open>response.json()\<close> rejects, or a
  response arrives with its \<open>ok\<close> flag and parsed body.
\<close>

datatype response = NetworkError | InvalidJson | Response bool jsval

record form =
  title :: string
  description :: string
  isLoading :: bool

text \<open>The state after the calls of a handler: only \<open>setIsLoading\<close> writes state.\<close>

fun applyEffect :: "'p effect \<Rightarrow> 'a form_scheme \<Rightarrow> 'a form_scheme" where
  "applyEffect (SetIsLoading b) s = s\<lparr>isLoading := b\<rparr>"
| "applyEffect _ s = s"

definition runEffects :: "'p effect list \<Rightarrow> 'a form_scheme \<Rightarrow> 'a form_scheme" where
  "runEffects es s = fold applyEffect es s"

definition fetches :: "'p effect list \<Rightarrow> 'p list" where
  "fetches es = concat (map (\<lambda>e. case e of Fetch u p \<Rightarrow> [p] | _ \<Rightarrow> []) es)"

definition alerts :: "'p effect list \<Rightarrow> (string \<times> jsval) list" where
  "alerts es = concat (map (\<lambda>e. case e of Alert t m bs \<Rightarrow> [(t, m)] | _ \<Rightarrow> []) es)"

text \<open>The value of the busy flag at each \<open>Alert.alert\<close> call, from its value at entry.\<close>

fun busyAtAlerts :: "bool \<Rightarrow> 'p effect list \<Rightarrow> bool list" where
  "busyAtAlerts b [] = []"
| "busyAtAlerts b (SetIsLoading b' # es) = busyAtAlerts b' es"
| "busyAtAlerts b (Alert t m bs # es) = b # busyAtAlerts b es"
| "busyAtAlerts b (e # es) = busyAtAlerts b es"

section \<open>CreateCampaignScreen\<close>

record campaign = form +
  fundingGoal :: string
  duration :: string
  tags :: string

record campaignBody =
  body_title :: string
  body_description :: string
  body_goal :: jsnum
  body_duration_days :: jsnum
  body_tags :: "string list"
  body_user_id :: string

text \<open>\<open>validateFormCampaign\<close>: the alert it raises, if any, and its result.\<close>

definition validateFormCampaign :: "campaign \<Rightarrow> campaignBody effect list \<times> bool" where
  "validateFormCampaign s =
     (if trim (title s) = [] then
        ([Alert ''Error'' (JStr ''Please enter a campaign title'') []], False)
      else if trim (description s) = [] then
        ([Alert ''Error'' (JStr ''Please enter a campaign description'') []], False)
      else if fundingGoal s = [] \<or> le_zero (parseFloat (fundingGoal s)) then
        ([Alert ''Error'' (JStr ''Please enter a valid funding goal'') []], False)
      else if duration s = [] \<or> le_zero (parseInt (duration s)) then
        ([Alert ''Error'' (JStr ''Please enter a valid duration in days'') []], False)
      else ([], True))"

text \<open>
  The object given to \<open>JSON.stringify\<close>. Its two numbers are the results of
  \<open>parseFloat\<close> and \<open>parseInt\<close> as the decimals their texts denote; the binary64 value
  that is written for each (and \<open>null\<close> for \<open>NaN\<close> and the infinities) is not computed.
\<close>

definition launchBody :: "campaign \<Rightarrow> campaignBody" where
  "launchBody s =
     \<lparr> body_title = trim (title s),
       body_description = trim (description s),
       body_goal = parseFloat (fundingGoal s),
       body_duration_days = parseInt (duration s),
       body_tags = filter (\<lambda>tag. tag \<noteq> []) (map trim (split CHR '','' (tags s))),
       body_user_id = ''current_user_id'' \<rparr>"

definition launchCatch :: "jserror \<Rightarrow> campaignBody effect list" where
  "launchCatch error =
     [Alert ''Error'' (JStr ''Network error. Please check your connection.'') [],
      ConsoleError ''Campaign creation error:'' error]"

definition handleLaunchCampaign :: "campaign \<Rightarrow> response \<Rightarrow> campaignBody effect list" where
  "handleLaunchCampaign s r =
     (case validateFormCampaign s of
        (es, False) \<Rightarrow> es
      | (es, True) \<Rightarrow>
          es @ [SetIsLoading True, Fetch ''http://localhost:8000/api/campaigns'' (launchBody s)]
          @ (case r of
               NetworkError \<Rightarrow> launchCatch FetchRejected
             | InvalidJson \<Rightarrow> launchCatch JsonRejected
             | Response ok data \<Rightarrow>
                 if ok then
                   [Alert ''Success!'' (JStr ''Your campaign has been launched!'')
                      [(''View Campaign'', NavigateCampaignDetail data),
                       (''Create Another'', ResetForm)]]
                 else
                   (case getProp data ''detail'' of
                      Inl error \<Rightarrow> launchCatch error
                    | Inr d \<Rightarrow> [Alert ''Error'' (or_else d (JStr ''Failed to create campaign'')) []]))
          @ [SetIsLoading False])"

text \<open>The press on \<open>Create Another\<close>: the five fields are emptied.\<close>

definition resetForm :: "campaign \<Rightarrow> campaign" where
  "resetForm s = s\<lparr>title := [], description := [], fundingGoal := [], duration := [], tags := []\<rparr>"

section \<open>GoLiveScreen\<close>

datatype cameraFacing = Back | Front

record golive = form +
  category :: string
  hasPermission :: "bool option"
  cameraType :: cameraFacing
  showPreview :: bool

definition initialGoLive :: golive where
  "initialGoLive =
     \<lparr> title = [], description = [], isLoading = False,
       category = [], hasPermission = None, cameraType = Back, showPreview = False \<rparr>"

definition categories :: "string list" where
  "categories =
     [''Social Impact'', ''Education'', ''Environment'', ''Health'',
      ''Community'', ''Arts & Culture'', ''Technology'', ''Other'']"

record liveBody =
  live_title :: string
  live_description :: string
  live_category :: string
  live_status :: string
  live_viewer_count :: int

text \<open>
  The mount effect: both permission requests are awaited, and the flag is set from the
  two statuses.
\<close>

datatype permissionStatus = Granted | Denied | Undetermined

definition requestPermissions ::
  "permissionStatus \<Rightarrow> permissionStatus \<Rightarrow> golive \<Rightarrow> golive \<times> liveBody effect list" where
  "requestPermissions cameraStatus audioStatus s =
     (if cameraStatus = Granted \<and> audioStatus = Granted then
        (s\<lparr>hasPermission := Some True\<rparr>, [])
      else
        (s\<lparr>hasPermission := Some False\<rparr>,
         [Alert ''Permissions Required''
            (JStr ''Camera and microphone access are required to go live.'')
            [(''Cancel'', NoAction), (''Open Settings'', OpenSettings)]]))"

definition validateFormGoLive :: "golive \<Rightarrow> liveBody effect list \<times> bool" where
  "validateFormGoLive s =
     (if trim (title s) = [] then
        ([Alert ''Missing Information'' (JStr ''Please enter a stream title'') []], False)
      else if length (title s) < 3 then
        ([Alert ''Title Too Short'' (JStr ''Stream title must be at least 3 characters'') []],
         False)
      else if category s = [] then
        ([Alert ''Missing Category'' (JStr ''Please select a category'') []], False)
      else ([], True))"

definition goLiveBody :: "golive \<Rightarrow> liveBody" where
  "goLiveBody s =
     \<lparr> live_title = trim (title s),
       live_description = trim (description s),
       live_category = category s,
       live_status = ''live'',
       live_viewer_count = 0 \<rparr>"

definition goLiveCatch :: "jserror \<Rightarrow> liveBody effect list" where
  "goLiveCatch error =
     [ConsoleError ''Error starting stream:'' error,
      Alert ''Error'' (JStr ''Failed to start live stream. Please try again.'')
        [(''OK'', NoAction)]]"

definition handleGoLive :: "golive \<Rightarrow> response \<Rightarrow> liveBody effect list" where
  "handleGoLive s r =
     (case validateFormGoLive s of
        (es, False) \<Rightarrow> es
      | (es, True) \<Rightarrow>
          if hasPermission s \<noteq> Some True then
            es @ [Alert ''No Permission''
                    (JStr ''Please grant camera and microphone permissions'') []]
          else
            es @ [SetIsLoading True,
                  Fetch ''http://localhost:8000/api/livestreams'' (goLiveBody s)]
            @ (case r of
                 NetworkError \<Rightarrow> goLiveCatch FetchRejected
               | InvalidJson \<Rightarrow> goLiveCatch JsonRejected
               | Response ok data \<Rightarrow>
                   if ok then
                     [Alert ''You're Live!''
                        (JStr ''Your stream is now broadcasting to the world!'')
                        [(''Start Streaming'', NavigateLiveStreaming data)]]
                   else
                     (case getProp data ''detail'' of
                        Inl error \<Rightarrow> goLiveCatch error
                      | Inr d \<Rightarrow> goLiveCatch Error))
            @ [SetIsLoading False])"

definition flipCamera :: "golive \<Rightarrow> golive" where
  "flipCamera s = s\<lparr>cameraType := (if cameraType s = Back then Front else Back)\<rparr>"

text \<open>
  The states the screen can be in. The form is rendered only once the permission flag is
  \<open>true\<close>; the two text inputs cut their text at 100 and 500 characters; a category
  chip exists for each entry of \<open>categories\<close> and nothing else writes the category.
  The request of \<open>handleGoLive\<close> is awaited, so other events may run between its calls:
  each call of a handler started in a state \<open>s0\<close> is a step of its own, applied to the
  state of that moment.
\<close>

inductive reachable :: "golive \<Rightarrow> bool" where
  mount: "reachable initialGoLive"
| permissions:
    "reachable s \<Longrightarrow> hasPermission s = None \<Longrightarrow>
     reachable (fst (requestPermissions cameraStatus audioStatus s))"
| setTitle:
    "reachable s \<Longrightarrow> hasPermission s = Some True \<Longrightarrow> length t \<le> 100 \<Longrightarrow>
     reachable (s\<lparr>title := t\<rparr>)"
| setDescription:
    "reachable s \<Longrightarrow> hasPermission s = Some True \<Longrightarrow> length t \<le> 500 \<Longrightarrow>
     reachable (s\<lparr>description := t\<rparr>)"
| setCategory:
    "reachable s \<Longrightarrow> hasPermission s = Some True \<Longrightarrow> cat \<in> set categories \<Longrightarrow>
     reachable (s\<lparr>category := cat\<rparr>)"
| setShowPreview:
    "reachable s \<Longrightarrow> hasPermission s = Some True \<Longrightarrow>
     reachable (s\<lparr>showPreview := \<not> showPreview s\<rparr>)"
| flip:
    "reachable s \<Longrightarrow> hasPermission s = Some True \<Longrightarrow> showPreview s \<Longrightarrow>
     reachable (flipCamera s)"
| goLive:
    "reachable s0 \<Longrightarrow> hasPermission s0 = Some True \<Longrightarrow> \<not> isLoading s0 \<Longrightarrow>
     reachable s \<Longrightarrow> e \<in> set (handleGoLive s0 r) \<Longrightarrow>
     reachable (applyEffect e s)"

section \<open>Specification vocabulary and example drafts\<close>

text \<open>
  Splitting on commas, in the words of the specification rather than of the code:
  \<open>segs\<close> are the comma segments of \<open>s\<close> when there is at least one segment, no
  segment holds a comma, and the segments put back together with commas give \<open>s\<close>.
\<close>

fun joinWith :: "char \<Rightarrow> string list \<Rightarrow> string" where
  "joinWith sep [] = []"
| "joinWith sep [x] = x"
| "joinWith sep (x # y # ys) = x @ sep # joinWith sep (y # ys)"

definition spec_commaSegments :: "string list \<Rightarrow> string \<Rightarrow> bool" where
  "spec_commaSegments segs s =
     (segs \<noteq> [] \<and> (\<forall>g \<in> set segs. CHR '','' \<notin> set g) \<and> joinWith CHR '','' segs = s)"

text \<open>The draft of the specification's end-to-end example, with three fields left open.\<close>

definition exampleCampaign :: "string \<Rightarrow> string \<Rightarrow> string \<Rightarrow> campaign" where
  "exampleCampaign goal days tgs =
     \<lparr> title = ''Clean Water Project'', description = ''Providing clean water'',
       isLoading = False, fundingGoal = goal, duration = days, tags = tgs \<rparr>"

definition exampleGoLive :: "string \<Rightarrow> bool option \<Rightarrow> golive" where
  "exampleGoLive t p =
     \<lparr> title = t, description = '' hello '', isLoading = False,
       category = ''Education'', hasPermission = p, cameraType = Back, showPreview = False \<rparr>"

text \<open>The screen after the permissions were granted, a chip was pressed and a title typed.\<close>

definition exampleSession :: golive where
  "exampleSession =
     (fst (requestPermissions Granted Granted initialGoLive))
       \<lparr>category := ''Health''\<rparr> \<lparr>title := ''abc''\<rparr>"

section \<open>Facts about the primitives\<close>

lemmas js_defs = trim_def trimStart_def trimEnd_def isWhiteSpace_def parseFloat_def
  parseInt_def isDigit_def isHexDigit_def radixVal_def digitVal_def exponentPart_def

lemmas campaign_defs = handleLaunchCampaign_def validateFormCampaign_def launchBody_def
  launchCatch_def fetches_def alerts_def exampleCampaign_def

lemmas golive_defs = handleGoLive_def validateFormGoLive_def goLiveBody_def
  goLiveCatch_def fetches_def alerts_def exampleGoLive_def

lemma length_trim_le: "length (trim s) \<le> length s"
proof -
  have "length (trim s) \<le> length (trimStart s)"
    unfolding trim_def trimEnd_def by (metis length_dropWhile_le length_rev)
  also have "\<dots> \<le> length s"
    unfolding trimStart_def by (rule length_dropWhile_le)
  finally show ?thesis .
qed

lemma dropWhile_rev_split:
  "xs = rev (dropWhile P (rev xs)) @ rev (takeWhile P (rev xs))"
proof -
  have "rev (takeWhile P (rev xs) @ dropWhile P (rev xs)) = xs" by simp
  then show ?thesis by (simp only: rev_append)
qed

text \<open>\<open>trim\<close> removes white space at both ends and nothing else.\<close>

lemma trim_decompose:
  "\<exists>l r. s = l @ trim s @ r \<and> (\<forall>c \<in> set l. isWhiteSpace c) \<and> (\<forall>c \<in> set r. isWhiteSpace c)"
proof -
  let ?l = "takeWhile isWhiteSpace s"
  let ?m = "dropWhile isWhiteSpace s"
  let ?r = "rev (takeWhile isWhiteSpace (rev ?m))"
  have 1: "s = ?l @ ?m" by simp
  have 2: "?m = trim s @ ?r"
    unfolding trim_def trimEnd_def trimStart_def by (rule dropWhile_rev_split)
  have 3: "\<forall>c \<in> set ?l. isWhiteSpace c" by (auto dest: set_takeWhileD)
  have 4: "\<forall>c \<in> set ?r. isWhiteSpace c" by (auto dest: set_takeWhileD)
  from 1 2 have "s = ?l @ trim s @ ?r" by simp
  with 3 4 show ?thesis by blast
qed

lemma trim_ends:
  assumes "trim s \<noteq> []"
  shows "\<not> isWhiteSpace (hd (trim s)) \<and> \<not> isWhiteSpace (last (trim s))"
proof -
  let ?m = "dropWhile isWhiteSpace s"
  let ?d = "dropWhile isWhiteSpace (rev ?m)"
  from assms have dn: "?d \<noteq> []" by (simp add: trim_def trimEnd_def trimStart_def)
  then have a: "\<not> isWhiteSpace (hd ?d)" by (rule hd_dropWhile)
  from dn have l: "last (trim s) = hd ?d"
    by (simp add: trim_def trimEnd_def trimStart_def last_rev)
  from dn have "rev ?m \<noteq> []" by (metis dropWhile.simps(1))
  then have mn: "?m \<noteq> []" by simp
  then have b: "\<not> isWhiteSpace (hd ?m)" by (rule hd_dropWhile)
  have "?m = trim s @ rev (takeWhile isWhiteSpace (rev ?m))"
    unfolding trim_def trimEnd_def trimStart_def by (rule dropWhile_rev_split)
  with assms have "hd ?m = hd (trim s)" by (metis hd_append2)
  with a b l show ?thesis by simp
qed

text \<open>\<open>split\<close> computes the comma segments, and they are the only ones.\<close>

lemma split_not_Nil: "split sep s \<noteq> []"
  by (induction s) auto

lemma split_Cons_sep: "split sep (sep # cs) = [] # split sep cs"
  by simp

lemma split_Cons_other:
  "c \<noteq> sep \<Longrightarrow> split sep cs = x # xs \<Longrightarrow> split sep (c # cs) = (c # x) # xs"
  by simp

lemma split_no_sep: "g \<in> set (split sep s) \<Longrightarrow> sep \<notin> set g"
proof (induction s arbitrary: g)
  case Nil
  then show ?case by simp
next
  case (Cons c cs)
  obtain x xs where e: "split sep cs = x # xs"
    using split_not_Nil [of sep cs] by (cases "split sep cs") simp_all
  show ?case
  proof (cases "c = sep")
    case True
    with Cons.prems have "g = [] \<or> g \<in> set (split sep cs)"
      by (simp only: split_Cons_sep set_simps insert_iff)
    with Cons.IH show ?thesis by fastforce
  next
    case False
    from Cons.prems have "g = c # x \<or> g \<in> set xs"
      by (simp only: split_Cons_other [OF False e] set_simps insert_iff)
    moreover have "sep \<notin> set x" using Cons.IH [of x] e by simp
    moreover have "g \<in> set xs \<Longrightarrow> sep \<notin> set g" using Cons.IH [of g] e by simp
    ultimately show ?thesis using False by auto
  qed
qed

lemma joinWith_Cons: "xs \<noteq> [] \<Longrightarrow> joinWith sep (x # xs) = x @ sep # joinWith sep xs"
  by (cases xs) simp_all

lemma joinWith_Cons_hd: "joinWith sep ((c # x) # xs) = c # joinWith sep (x # xs)"
  by (cases xs) simp_all

lemma joinWith_split: "joinWith sep (split sep s) = s"
proof (induction s)
  case Nil
  then show ?case by simp
next
  case (Cons c cs)
  obtain x xs where e: "split sep cs = x # xs"
    using split_not_Nil [of sep cs] by (cases "split sep cs") simp_all
  show ?case
  proof (cases "c = sep")
    case True
    have "joinWith sep (split sep (c # cs)) = joinWith sep ([] # split sep cs)"
      using True by (simp only: split_Cons_sep)
    also have "\<dots> = sep # joinWith sep (split sep cs)"
      using joinWith_Cons [OF split_not_Nil, of sep "[]" sep cs] by simp
    finally show ?thesis using Cons.IH True by simp
  next
    case False
    have "joinWith sep (split sep (c # cs)) = joinWith sep ((c # x) # xs)"
      by (simp only: split_Cons_other [OF False e])
    also have "\<dots> = c # joinWith sep (x # xs)" by (rule joinWith_Cons_hd)
    finally show ?thesis using Cons.IH e by simp
  qed
qed

lemma split_append_sep:
  "sep \<notin> set x \<Longrightarrow> split sep (x @ sep # rest) = x # split sep rest"
  by (induction x) auto

lemma split_no_sep_id: "sep \<notin> set x \<Longrightarrow> split sep x = [x]"
  by (induction x) auto

lemma split_joinWith:
  "segs \<noteq> [] \<Longrightarrow> (\<And>g. g \<in> set segs \<Longrightarrow> sep \<notin> set g) \<Longrightarrow>
   split sep (joinWith sep segs) = segs"
proof (induction segs)
  case Nil
  then show ?case by simp
next
  case (Cons x xs)
  have x: "sep \<notin> set x" using Cons.prems(2) [of x] by simp
  show ?case
  proof (cases xs)
    case Nil
    with x show ?thesis by (simp add: split_no_sep_id)
  next
    case (Cons y ys)
    then have n: "xs \<noteq> []" by simp
    have "split sep (joinWith sep xs) = xs"
      using Cons.IH [OF n] Cons.prems(2) by simp
    then show ?thesis
      by (simp only: joinWith_Cons [OF n] split_append_sep [OF x])
  qed
qed

lemma spec_commaSegments_split: "spec_commaSegments (split CHR '','' s) s"
  unfolding spec_commaSegments_def
  by (intro conjI ballI) (simp_all add: split_not_Nil joinWith_split split_no_sep)

lemma spec_commaSegments_unique:
  assumes "spec_commaSegments segs s"
  shows "segs = split CHR '','' s"
proof -
  from assms have n: "segs \<noteq> []" and f: "\<And>g. g \<in> set segs \<Longrightarrow> CHR '','' \<notin> set g"
    and j: "joinWith CHR '','' segs = s"
    unfolding spec_commaSegments_def by simp_all
  from split_joinWith [OF n f] j show ?thesis by simp
qed

section \<open>Facts about validation and the two handlers\<close>

lemma validateFormCampaign_passes:
  "snd (validateFormCampaign s) \<Longrightarrow> validateFormCampaign s = ([], True)"
  by (simp add: validateFormCampaign_def split: if_splits)

lemma validateFormGoLive_passes:
  "snd (validateFormGoLive s) \<Longrightarrow> validateFormGoLive s = ([], True)"
  by (simp add: validateFormGoLive_def split: if_splits)

lemma validateFormCampaign_fails:
  "\<not> snd (validateFormCampaign s) \<Longrightarrow>
   \<exists>m. validateFormCampaign s = ([Alert ''Error'' (JStr m) []], False)"
  by (simp add: validateFormCampaign_def split: if_splits)

lemma validateFormGoLive_fails:
  "\<not> snd (validateFormGoLive s) \<Longrightarrow>
   \<exists>t m. validateFormGoLive s = ([Alert t (JStr m) []], False)"
  by (simp add: validateFormGoLive_def split: if_splits)

lemma handleLaunchCampaign_refused:
  "\<not> snd (validateFormCampaign s) \<Longrightarrow> handleLaunchCampaign s r = fst (validateFormCampaign s)"
  by (cases "validateFormCampaign s") (simp add: handleLaunchCampaign_def)

lemma handleGoLive_refused:
  "\<not> snd (validateFormGoLive s) \<Longrightarrow> handleGoLive s r = fst (validateFormGoLive s)"
  by (cases "validateFormGoLive s") (simp add: handleGoLive_def)

text \<open>A request is sent exactly when validation (and, to go live, the permission) passes.\<close>

lemma launch_fetches:
  "fetches (handleLaunchCampaign s r) = (if snd (validateFormCampaign s) then [launchBody s] else [])"
proof (cases "snd (validateFormCampaign s)")
  case True
  from validateFormCampaign_passes [OF True] True show ?thesis
    by (cases r) (simp_all add: handleLaunchCampaign_def launchCatch_def fetches_def split: sum.splits)
next
  case False
  from validateFormCampaign_fails [OF False] handleLaunchCampaign_refused [OF False, of r] False
  show ?thesis by (auto simp: fetches_def)
qed

lemma goLive_fetches:
  "fetches (handleGoLive s r) =
     (if snd (validateFormGoLive s) \<and> hasPermission s = Some True then [goLiveBody s] else [])"
proof (cases "snd (validateFormGoLive s)")
  case True
  from validateFormGoLive_passes [OF True] True show ?thesis
    by (cases r) (simp_all add: handleGoLive_def goLiveCatch_def fetches_def split: sum.splits)
next
  case False
  from validateFormGoLive_fails [OF False] handleGoLive_refused [OF False, of r] False
  show ?thesis by (auto simp: fetches_def)
qed

text \<open>
  The part of the required-field rule that holds: an empty required field, or a blank
  title or description, stops the submission before the request.
\<close>

lemma launch_empty_field_no_request:
  "trim (title s) = [] \<or> trim (description s) = [] \<or> fundingGoal s = [] \<or> duration s = [] \<Longrightarrow>
   fetches (handleLaunchCampaign s r) = []"
  unfolding launch_fetches by (auto simp: validateFormCampaign_def)

lemma goLive_empty_field_no_request:
  "trim (title s) = [] \<or> category s = [] \<Longrightarrow> fetches (handleGoLive s r) = []"
  unfolding goLive_fetches by (auto simp: validateFormGoLive_def)

text \<open>
  The part of the number rules that holds: with title and description filled in, an
  empty goal or one whose number is at most zero is refused with the funding-goal error,
  and then an empty duration or one whose number is at most zero with the duration error.
\<close>

lemma launch_refuses_goal:
  "trim (title s) \<noteq> [] \<Longrightarrow> trim (description s) \<noteq> [] \<Longrightarrow>
   fundingGoal s = [] \<or> le_zero (parseFloat (fundingGoal s)) \<Longrightarrow>
   handleLaunchCampaign s r = [Alert ''Error'' (JStr ''Please enter a valid funding goal'') []]"
  by (auto simp: handleLaunchCampaign_def validateFormCampaign_def)

lemma launch_refuses_duration:
  "trim (title s) \<noteq> [] \<Longrightarrow> trim (description s) \<noteq> [] \<Longrightarrow>
   fundingGoal s \<noteq> [] \<Longrightarrow> \<not> le_zero (parseFloat (fundingGoal s)) \<Longrightarrow>
   duration s = [] \<or> le_zero (parseInt (duration s)) \<Longrightarrow>
   handleLaunchCampaign s r =
     [Alert ''Error'' (JStr ''Please enter a valid duration in days'') []]"
  by (auto simp: handleLaunchCampaign_def validateFormCampaign_def)

section \<open>The claims\<close>

text \<open>
  C1. A funding goal that does not parse to a positive number is to be refused with the
  funding-goal error and without a request. The code tests \<open>parseFloat(goal) <= 0\<close>,
  which is false for \<open>NaN\<close>: with the goal \<open>abc\<close> the example draft passes validation
  and the request is sent with \<open>NaN\<close> as its goal, and a lone decimal point passes too.
  The goals \<open>0\<close> and \<open>-5\<close> and the empty goal are refused with the funding-goal error.
\<close>

theorem funding_goal_not_a_number_is_submitted:
  "validateFormCampaign (exampleCampaign ''abc'' ''30'' ''water, health'') = ([], True)
   \<and> fetches (handleLaunchCampaign (exampleCampaign ''abc'' ''30'' ''water, health'') NetworkError) =
       [\<lparr> body_title = ''Clean Water Project'', body_description = ''Providing clean water'',
          body_goal = NaN, body_duration_days = Dec False 30 0,
          body_tags = [''water'', ''health''], body_user_id = ''current_user_id'' \<rparr>]
   \<and> validateFormCampaign (exampleCampaign ''.'' ''30'' ''water, health'') = ([], True)
   \<and> handleLaunchCampaign (exampleCampaign ''0'' ''30'' ''water, health'') NetworkError =
       [Alert ''Error'' (JStr ''Please enter a valid funding goal'') []]
   \<and> handleLaunchCampaign (exampleCampaign ''-5'' ''30'' ''water, health'') NetworkError =
       [Alert ''Error'' (JStr ''Please enter a valid funding goal'') []]
   \<and> handleLaunchCampaign (exampleCampaign [] ''30'' ''water, health'') NetworkError =
       [Alert ''Error'' (JStr ''Please enter a valid funding goal'') []]"
  by (simp add: campaign_defs js_defs)

text \<open>
  C2. A duration that does not parse to a positive integer is to be refused with the
  duration error and without a request. The code tests \<open>parseInt(duration) <= 0\<close>, false
  for \<open>NaN\<close>: with the duration \<open>abc\<close> the example draft passes validation and the
  request is sent with \<open>NaN\<close> as its number of days. The durations \<open>0\<close>, \<open>-3\<close> and
  \<open>0.5\<close> are refused with the duration error.
\<close>

theorem duration_not_a_number_is_submitted:
  "validateFormCampaign (exampleCampaign ''5000'' ''abc'' ''water, health'') = ([], True)
   \<and> fetches (handleLaunchCampaign (exampleCampaign ''5000'' ''abc'' ''water, health'') NetworkError) =
       [\<lparr> body_title = ''Clean Water Project'', body_description = ''Providing clean water'',
          body_goal = Dec False 5000 0, body_duration_days = NaN,
          body_tags = [''water'', ''health''], body_user_id = ''current_user_id'' \<rparr>]
   \<and> handleLaunchCampaign (exampleCampaign ''5000'' ''0'' ''water, health'') NetworkError =
       [Alert ''Error'' (JStr ''Please enter a valid duration in days'') []]
   \<and> handleLaunchCampaign (exampleCampaign ''5000'' ''-3'' ''water, health'') NetworkError =
       [Alert ''Error'' (JStr ''Please enter a valid duration in days'') []]
   \<and> handleLaunchCampaign (exampleCampaign ''5000'' ''0.5'' ''water, health'') NetworkError =
       [Alert ''Error'' (JStr ''Please enter a valid duration in days'') []]"
  by (simp add: campaign_defs js_defs)

text \<open>
  The part of the title rule that holds: a title that is blank, or shorter than 3
  characters as typed, is refused with the missing-title or the title-too-short alert and
  without a request, and a title whose trimmed form has at least 3 characters passes both
  title checks.
\<close>

lemma golive_short_title_refused:
  "(trim (title s) = [] \<or> length (title s) < 3 \<longrightarrow>
        fetches (handleGoLive s r) = []
        \<and> (handleGoLive s r =
              [Alert ''Missing Information'' (JStr ''Please enter a stream title'') []]
            \<or> handleGoLive s r =
              [Alert ''Title Too Short'' (JStr ''Stream title must be at least 3 characters'') []]))
   \<and> (3 \<le> length (trim (title s)) \<longrightarrow>
        validateFormGoLive s =
          (if category s = [] then
             ([Alert ''Missing Category'' (JStr ''Please select a category'') []], False)
           else ([], True)))"
proof (intro conjI impI)
  assume a: "trim (title s) = [] \<or> length (title s) < 3"
  then have n: "\<not> snd (validateFormGoLive s)"
    by (auto simp: validateFormGoLive_def)
  from n show "fetches (handleGoLive s r) = []"
    by (simp add: goLive_fetches)
  from a show "handleGoLive s r =
              [Alert ''Missing Information'' (JStr ''Please enter a stream title'') []]
            \<or> handleGoLive s r =
              [Alert ''Title Too Short'' (JStr ''Stream title must be at least 3 characters'') []]"
    unfolding handleGoLive_refused [OF n] by (auto simp: validateFormGoLive_def)
next
  assume a: "3 \<le> length (trim (title s))"
  with length_trim_le [of "title s"] have "3 \<le> length (title s)" and "trim (title s) \<noteq> []"
    by auto
  then show "validateFormGoLive s =
          (if category s = [] then
             ([Alert ''Missing Category'' (JStr ''Please select a category'') []], False)
           else ([], True))"
    by (simp add: validateFormGoLive_def)
qed

text \<open>
  C3. A livestream title whose trimmed form is shorter than 3 characters is to be refused.
  The first check and the request trim the title, but the length check reads
  \<open>title.length\<close> of the title as typed: \<open>" a "\<close> has three characters, so it passes
  the check behind the alert \<open>Stream title must be at least 3 characters\<close>, and the
  request is sent with the one-character title \<open>a\<close>. The titles \<open>ab\<close> and \<open>abc\<close>
  are refused and accepted as they should be.
\<close>

theorem golive_padded_title_is_submitted:
  "length (trim '' a '') = 1
   \<and> validateFormGoLive (exampleGoLive '' a '' (Some True)) = ([], True)
   \<and> fetches (handleGoLive (exampleGoLive '' a '' (Some True)) NetworkError) =
       [\<lparr> live_title = ''a'', live_description = ''hello'', live_category = ''Education'',
          live_status = ''live'', live_viewer_count = 0 \<rparr>]
   \<and> handleGoLive (exampleGoLive ''ab'' (Some True)) NetworkError =
       [Alert ''Title Too Short'' (JStr ''Stream title must be at least 3 characters'') []]
   \<and> validateFormGoLive (exampleGoLive ''abc'' (Some True)) = ([], True)"
  by (simp add: golive_defs js_defs)

text \<open>
  C4, as amended. When the response arrives and is not ok, the campaign screen shows the
  body's \<open>detail\<close> when it is truthy (present and not empty) and the fallback
  \<open>Failed to create campaign\<close> otherwise; the livestream screen shows its fixed message
  whatever the body holds.
\<close>

theorem rejection_message:
  "(snd (validateFormCampaign c) \<longrightarrow> getProp data ''detail'' = Inr d \<longrightarrow>
      alerts (handleLaunchCampaign c (Response False data)) =
        [(''Error'', if truthy d then d else JStr ''Failed to create campaign'')])
   \<and> (snd (validateFormGoLive g) \<longrightarrow> hasPermission g = Some True \<longrightarrow>
        alerts (handleGoLive g (Response False data)) =
          [(''Error'', JStr ''Failed to start live stream. Please try again.'')])"
proof (intro conjI impI)
  assume "snd (validateFormCampaign c)" and "getProp data ''detail'' = Inr d"
  then show "alerts (handleLaunchCampaign c (Response False data)) =
        [(''Error'', if truthy d then d else JStr ''Failed to create campaign'')]"
    using validateFormCampaign_passes [of c]
    by (simp add: handleLaunchCampaign_def alerts_def or_else_def)
next
  assume "snd (validateFormGoLive g)" and "hasPermission g = Some True"
  then show "alerts (handleGoLive g (Response False data)) =
          [(''Error'', JStr ''Failed to start live stream. Please try again.'')]"
    using validateFormGoLive_passes [of g]
    by (simp add: handleGoLive_def alerts_def goLiveCatch_def split: sum.splits)
qed

theorem rejection_message_witness:
  "snd (validateFormCampaign (exampleCampaign ''5000'' ''30'' ''water, health''))
   \<and> snd (validateFormGoLive (exampleGoLive ''abc'' (Some True)))
   \<and> hasPermission (exampleGoLive ''abc'' (Some True)) = Some True
   \<and> getProp (JObj [(''detail'', JStr ''Title already used'')]) ''detail'' =
       Inr (JStr ''Title already used'')
   \<and> alerts (handleLaunchCampaign (exampleCampaign ''5000'' ''30'' ''water, health'')
       (Response False (JObj [(''detail'', JStr ''Title already used'')]))) =
        [(''Error'', JStr ''Title already used'')]
   \<and> alerts (handleGoLive (exampleGoLive ''abc'' (Some True))
       (Response False (JObj [(''detail'', JStr ''Title already used'')]))) =
        [(''Error'', JStr ''Failed to start live stream. Please try again.'')]"
proof -
  have c: "snd (validateFormCampaign (exampleCampaign ''5000'' ''30'' ''water, health''))"
    by (simp add: validateFormCampaign_def exampleCampaign_def js_defs)
  have g: "snd (validateFormGoLive (exampleGoLive ''abc'' (Some True)))"
    by (simp add: validateFormGoLive_def exampleGoLive_def js_defs)
  have p: "hasPermission (exampleGoLive ''abc'' (Some True)) = Some True"
    by (simp add: exampleGoLive_def)
  have d: "getProp (JObj [(''detail'', JStr ''Title already used'')]) ''detail'' =
       Inr (JStr ''Title already used'')"
    by simp
  show ?thesis
    using c g p d
      rejection_message [of "exampleCampaign ''5000'' ''30'' ''water, health''"
        "JObj [(''detail'', JStr ''Title already used'')]" "JStr ''Title already used''"
        "exampleGoLive ''abc'' (Some True)"]
    by simp
qed

text \<open>
  The claim as worded fails on the livestream screen: a rejection whose body carries the
  detail \<open>Title already used\<close> is shown as the fixed message.
\<close>

theorem golive_rejection_hides_detail:
  "alerts (handleGoLive (exampleGoLive ''abc'' (Some True))
             (Response False (JObj [(''detail'', JStr ''Title already used'')]))) =
     [(''Error'', JStr ''Failed to start live stream. Please try again.'')]"
  by (simp add: golive_defs js_defs or_else_def)

text \<open>
  C5, as amended. In every submission that reaches the request, on either screen and
  whatever the outcome, the one notification is raised while the busy flag is still set;
  clearing the flag is the last call of the handler, so the flag is false once the
  handler has finished.
\<close>

theorem busy_cleared_after_notification:
  "(snd (validateFormCampaign c) \<longrightarrow>
      busyAtAlerts b (handleLaunchCampaign c r) = [True]
      \<and> last (handleLaunchCampaign c r) = SetIsLoading False
      \<and> \<not> isLoading (runEffects (handleLaunchCampaign c r) c))
   \<and> (snd (validateFormGoLive g) \<longrightarrow> hasPermission g = Some True \<longrightarrow>
      busyAtAlerts b (handleGoLive g r) = [True]
      \<and> last (handleGoLive g r) = SetIsLoading False
      \<and> \<not> isLoading (runEffects (handleGoLive g r) g))"
proof (intro conjI impI)
  assume v: "snd (validateFormCampaign c)"
  note e = validateFormCampaign_passes [OF v]
  show "busyAtAlerts b (handleLaunchCampaign c r) = [True]"
    using e by (cases r) (simp_all add: handleLaunchCampaign_def launchCatch_def split: sum.splits)
  show "last (handleLaunchCampaign c r) = SetIsLoading False"
    using e by (simp add: handleLaunchCampaign_def)
  show "\<not> isLoading (runEffects (handleLaunchCampaign c r) c)"
    using e by (simp add: handleLaunchCampaign_def runEffects_def)
next
  assume v: "snd (validateFormGoLive g)" and p: "hasPermission g = Some True"
  note e = validateFormGoLive_passes [OF v]
  show "busyAtAlerts b (handleGoLive g r) = [True]"
    using e p by (cases r) (simp_all add: handleGoLive_def goLiveCatch_def split: sum.splits)
  show "last (handleGoLive g r) = SetIsLoading False"
    using e p by (simp add: handleGoLive_def)
  show "\<not> isLoading (runEffects (handleGoLive g r) g)"
    using e p by (simp add: handleGoLive_def runEffects_def)
qed

theorem busy_cleared_after_notification_witness:
  "snd (validateFormCampaign (exampleCampaign ''5000'' ''30'' ''water, health''))
   \<and> snd (validateFormGoLive (exampleGoLive ''abc'' (Some True)))
   \<and> hasPermission (exampleGoLive ''abc'' (Some True)) = Some True
   \<and> last (handleLaunchCampaign (exampleCampaign ''5000'' ''30'' ''water, health'')
        (Response True (JObj [(''id'', JNum 7)]))) = SetIsLoading False
   \<and> busyAtAlerts False (handleGoLive (exampleGoLive ''abc'' (Some True)) InvalidJson) = [True]"
proof -
  have c: "snd (validateFormCampaign (exampleCampaign ''5000'' ''30'' ''water, health''))"
    by (simp add: validateFormCampaign_def exampleCampaign_def js_defs)
  have g: "snd (validateFormGoLive (exampleGoLive ''abc'' (Some True)))"
    by (simp add: validateFormGoLive_def exampleGoLive_def js_defs)
  have p: "hasPermission (exampleGoLive ''abc'' (Some True)) = Some True"
    by (simp add: exampleGoLive_def)
  from c busy_cleared_after_notification
    [of "exampleCampaign ''5000'' ''30'' ''water, health''" False
      "Response True (JObj [(''id'', JNum 7)])"]
  have 1: "last (handleLaunchCampaign (exampleCampaign ''5000'' ''30'' ''water, health'')
        (Response True (JObj [(''id'', JNum 7)]))) = SetIsLoading False"
    by blast
  from g p busy_cleared_after_notification
    [of _ False InvalidJson "exampleGoLive ''abc'' (Some True)"]
  have 2: "busyAtAlerts False (handleGoLive (exampleGoLive ''abc'' (Some True)) InvalidJson) = [True]"
    by blast
  from c g p 1 2 show ?thesis by blast
qed

text \<open>
  The claim as worded fails: on a transport failure of the example draft, whose busy flag
  is false at the press, the flag is true when the notification is raised.
\<close>

theorem launch_notification_while_busy:
  "busyAtAlerts (isLoading (exampleCampaign ''5000'' ''30'' ''water, health''))
     (handleLaunchCampaign (exampleCampaign ''5000'' ''30'' ''water, health'') NetworkError) =
   [True]"
  by (simp add: campaign_defs js_defs)

text \<open>
  C6. With a required field empty or blank no request is to be sent. A goal of one space
  is blank but not empty, \<open>parseFloat\<close> makes it \<open>NaN\<close>, and the request is sent; a
  duration of one space passes the same way.
\<close>

theorem blank_goal_or_duration_is_submitted:
  "trim '' '' = []
   \<and> fetches (handleLaunchCampaign (exampleCampaign '' '' ''30'' ''water, health'') NetworkError) =
       [\<lparr> body_title = ''Clean Water Project'', body_description = ''Providing clean water'',
          body_goal = NaN, body_duration_days = Dec False 30 0,
          body_tags = [''water'', ''health''], body_user_id = ''current_user_id'' \<rparr>]
   \<and> fetches (handleLaunchCampaign (exampleCampaign ''5000'' '' '' ''water, health'') NetworkError) =
       [\<lparr> body_title = ''Clean Water Project'', body_description = ''Providing clean water'',
          body_goal = Dec False 5000 0, body_duration_days = NaN,
          body_tags = [''water'', ''health''], body_user_id = ''current_user_id'' \<rparr>]"
  by (simp add: campaign_defs js_defs)

text \<open>
  C7. While the permission flag is not \<open>true\<close> (still \<open>null\<close>, or \<open>false\<close>), a press on
  Go Live sends no request and raises exactly one alert; when title and category are
  valid, that alert is the one asking for the camera and microphone permissions.
\<close>

theorem golive_needs_permission:
  assumes "hasPermission s \<noteq> Some True"
  shows "fetches (handleGoLive s r) = []
         \<and> (\<exists>t m. handleGoLive s r = [Alert t (JStr m) []])
         \<and> (snd (validateFormGoLive s) \<longrightarrow>
              handleGoLive s r =
                [Alert ''No Permission''
                   (JStr ''Please grant camera and microphone permissions'') []])"
proof (cases "snd (validateFormGoLive s)")
  case True
  from validateFormGoLive_passes [OF True] assms show ?thesis
    by (simp add: handleGoLive_def fetches_def)
next
  case False
  from validateFormGoLive_fails [OF False] handleGoLive_refused [OF False, of r] show ?thesis
    by (auto simp: fetches_def)
qed

theorem golive_needs_permission_witness:
  "hasPermission (exampleGoLive ''abc'' (Some False)) \<noteq> Some True
   \<and> hasPermission (exampleGoLive ''abc'' None) \<noteq> Some True
   \<and> snd (validateFormGoLive (exampleGoLive ''abc'' (Some False)))
   \<and> fetches (handleGoLive (exampleGoLive ''abc'' None) NetworkError) = []
   \<and> handleGoLive (exampleGoLive ''abc'' (Some False)) NetworkError =
       [Alert ''No Permission'' (JStr ''Please grant camera and microphone permissions'') []]"
proof -
  have h: "hasPermission (exampleGoLive ''abc'' (Some False)) \<noteq> Some True"
    by (simp add: exampleGoLive_def)
  have n: "hasPermission (exampleGoLive ''abc'' None) \<noteq> Some True"
    by (simp add: exampleGoLive_def)
  have v: "snd (validateFormGoLive (exampleGoLive ''abc'' (Some False)))"
    by (simp add: validateFormGoLive_def exampleGoLive_def js_defs)
  show ?thesis
    using h n v golive_needs_permission [OF h, of NetworkError]
      golive_needs_permission [OF n, of NetworkError]
    by blast
qed

text \<open>
  C8. When a campaign submission reaches the request and the request does not complete
  (\<open>fetch\<close> rejects, or the body is not JSON), the connectivity error is the one alert
  shown, and afterwards the busy flag is false and the five fields are as they were.
\<close>

theorem launch_transport_failure:
  assumes "snd (validateFormCampaign s)" and "r = NetworkError \<or> r = InvalidJson"
  shows "alerts (handleLaunchCampaign s r) =
           [(''Error'', JStr ''Network error. Please check your connection.'')]
         \<and> isLoading (runEffects (handleLaunchCampaign s r) s) = False
         \<and> title (runEffects (handleLaunchCampaign s r) s) = title s
         \<and> description (runEffects (handleLaunchCampaign s r) s) = description s
         \<and> fundingGoal (runEffects (handleLaunchCampaign s r) s) = fundingGoal s
         \<and> duration (runEffects (handleLaunchCampaign s r) s) = duration s
         \<and> tags (runEffects (handleLaunchCampaign s r) s) = tags s"
  using assms(2) validateFormCampaign_passes [OF assms(1)]
  by (auto simp: handleLaunchCampaign_def launchCatch_def alerts_def runEffects_def)

theorem launch_transport_failure_witness:
  "snd (validateFormCampaign (exampleCampaign ''5000'' ''30'' ''water, health''))
   \<and> alerts (handleLaunchCampaign (exampleCampaign ''5000'' ''30'' ''water, health'') NetworkError) =
           [(''Error'', JStr ''Network error. Please check your connection.'')]
   \<and> isLoading (runEffects
        (handleLaunchCampaign (exampleCampaign ''5000'' ''30'' ''water, health'') NetworkError)
        (exampleCampaign ''5000'' ''30'' ''water, health'')) = False
   \<and> tags (runEffects
        (handleLaunchCampaign (exampleCampaign ''5000'' ''30'' ''water, health'') NetworkError)
        (exampleCampaign ''5000'' ''30'' ''water, health'')) = ''water, health''"
proof -
  have h: "snd (validateFormCampaign (exampleCampaign ''5000'' ''30'' ''water, health''))"
    by (simp add: validateFormCampaign_def exampleCampaign_def js_defs)
  show ?thesis
    using h launch_transport_failure [OF h, of NetworkError] by (simp add: exampleCampaign_def)
qed

text \<open>
  C9. The tags of the request are the comma segments of the tags field, each trimmed, the
  empty ones dropped, in their order: whatever list \<open>segs\<close> is the segmentation of the
  field (there is one), the body's tags are the non-empty strings of \<open>map trim segs\<close>.
  Every request of the handler carries these tags, and the field \<open>a, b ,, c\<close> gives
  \<open>a\<close>, \<open>b\<close>, \<open>c\<close>.
\<close>

theorem launch_tags_normalised:
  "(\<forall>segs. spec_commaSegments segs (tags s) \<longrightarrow>
      body_tags (launchBody s) = filter (\<lambda>t. t \<noteq> []) (map trim segs))
   \<and> (\<exists>segs. spec_commaSegments segs (tags s))
   \<and> (\<forall>p \<in> set (fetches (handleLaunchCampaign s r)). body_tags p = body_tags (launchBody s))
   \<and> (tags s = ''a, b ,, c'' \<longrightarrow> body_tags (launchBody s) = [''a'', ''b'', ''c''])"
proof (intro conjI allI impI ballI)
  fix segs
  assume "spec_commaSegments segs (tags s)"
  then have "segs = split CHR '','' (tags s)"
    by (rule spec_commaSegments_unique)
  then show "body_tags (launchBody s) = filter (\<lambda>t. t \<noteq> []) (map trim segs)"
    by (simp add: launchBody_def)
next
  show "\<exists>segs. spec_commaSegments segs (tags s)"
    using spec_commaSegments_split [of "tags s"] by blast
next
  fix p
  assume "p \<in> set (fetches (handleLaunchCampaign s r))"
  then have "p = launchBody s"
    by (simp add: launch_fetches split: if_splits)
  then show "body_tags p = body_tags (launchBody s)" by simp
next
  assume "tags s = ''a, b ,, c''"
  then show "body_tags (launchBody s) = [''a'', ''b'', ''c'']"
    by (simp add: launchBody_def js_defs)
qed

theorem launch_tags_normalised_witness:
  "spec_commaSegments [''a'', '' b '', [], '' c'']
     (tags (exampleCampaign ''5000'' ''30'' ''a, b ,, c''))
   \<and> launchBody (exampleCampaign ''5000'' ''30'' ''a, b ,, c'')
       \<in> set (fetches (handleLaunchCampaign (exampleCampaign ''5000'' ''30'' ''a, b ,, c'') NetworkError))
   \<and> body_tags (launchBody (exampleCampaign ''5000'' ''30'' ''a, b ,, c'')) = [''a'', ''b'', ''c'']"
proof -
  have seg: "spec_commaSegments [''a'', '' b '', [], '' c'']
     (tags (exampleCampaign ''5000'' ''30'' ''a, b ,, c''))"
    by (simp add: spec_commaSegments_def exampleCampaign_def)
  have sent: "launchBody (exampleCampaign ''5000'' ''30'' ''a, b ,, c'')
       \<in> set (fetches (handleLaunchCampaign (exampleCampaign ''5000'' ''30'' ''a, b ,, c'') NetworkError))"
    by (simp add: launch_fetches validateFormCampaign_def exampleCampaign_def js_defs)
  from seg launch_tags_normalised [of "exampleCampaign ''5000'' ''30'' ''a, b ,, c''" NetworkError]
  have "body_tags (launchBody (exampleCampaign ''5000'' ''30'' ''a, b ,, c'')) =
      filter (\<lambda>t. t \<noteq> []) (map trim [''a'', '' b '', [], '' c''])"
    by blast
  then have "body_tags (launchBody (exampleCampaign ''5000'' ''30'' ''a, b ,, c'')) =
      [''a'', ''b'', ''c'']"
    by (simp add: js_defs)
  with seg sent show ?thesis by blast
qed

text \<open>The category is only ever the empty string or an entry of \<open>categories\<close>.\<close>

lemma reachable_category:
  "reachable s \<Longrightarrow> category s = [] \<or> category s \<in> set categories"
proof (induction rule: reachable.induct)
  case mount
  show ?case by (simp add: initialGoLive_def)
next
  case (permissions s cameraStatus audioStatus)
  then show ?case by (simp add: requestPermissions_def)
next
  case (setTitle s t)
  then show ?case by simp
next
  case (setDescription s t)
  then show ?case by simp
next
  case (setCategory s cat)
  then show ?case by simp
next
  case (setShowPreview s)
  then show ?case by simp
next
  case (flip s)
  then show ?case by (simp add: flipCamera_def)
next
  case (goLive s0 s e r)
  then show ?case by (cases e) simp_all
qed

text \<open>
  C10. In every reachable state of the livestream screen the category is the empty string
  or one of the eight fixed categories, so the category of every request that
  \<open>handleGoLive\<close> sends from such a state, which validation has found non-empty, is one
  of the eight.
\<close>

theorem category_invariant:
  assumes "reachable s"
  shows "(category s = [] \<or> category s \<in> set categories)
         \<and> length categories = 8
         \<and> (\<forall>p \<in> set (fetches (handleGoLive s r)). live_category p \<in> set categories)"
proof (intro conjI ballI)
  show inv: "category s = [] \<or> category s \<in> set categories"
    using assms by (rule reachable_category)
  show "length categories = 8" by (simp add: categories_def)
  fix p
  assume "p \<in> set (fetches (handleGoLive s r))"
  then have v: "snd (validateFormGoLive s)" and p: "p = goLiveBody s"
    by (simp_all add: goLive_fetches split: if_splits)
  from v have "category s \<noteq> []"
    by (simp add: validateFormGoLive_def split: if_splits)
  with inv p show "live_category p \<in> set categories"
    by (simp add: goLiveBody_def)
qed

theorem category_invariant_witness:
  "reachable exampleSession
   \<and> fetches (handleGoLive exampleSession NetworkError) = [goLiveBody exampleSession]
   \<and> live_category (goLiveBody exampleSession) = ''Health''
   \<and> live_category (goLiveBody exampleSession) \<in> set categories"
proof -
  have 0: "reachable initialGoLive" by (rule reachable.mount)
  have "hasPermission initialGoLive = None" by (simp add: initialGoLive_def)
  with 0 have 1: "reachable (fst (requestPermissions Granted Granted initialGoLive))"
    by (rule reachable.permissions)
  have g: "hasPermission (fst (requestPermissions Granted Granted initialGoLive)) = Some True"
    by (simp add: requestPermissions_def)
  have "''Health'' \<in> set categories" by (simp add: categories_def)
  with 1 g have 2: "reachable ((fst (requestPermissions Granted Granted initialGoLive))
       \<lparr>category := ''Health''\<rparr>)"
    by (rule reachable.setCategory)
  have "hasPermission ((fst (requestPermissions Granted Granted initialGoLive))
       \<lparr>category := ''Health''\<rparr>) = Some True"
    using g by simp
  moreover have "length ''abc'' \<le> 100" by simp
  ultimately have r: "reachable exampleSession"
    unfolding exampleSession_def using 2 by (intro reachable.setTitle)
  have f: "fetches (handleGoLive exampleSession NetworkError) = [goLiveBody exampleSession]"
    by (simp add: goLive_fetches validateFormGoLive_def exampleSession_def
        requestPermissions_def initialGoLive_def js_defs)
  have c: "live_category (goLiveBody exampleSession) = ''Health''"
    by (simp add: goLiveBody_def exampleSession_def requestPermissions_def)
  from category_invariant [OF r, of NetworkError] f
  have "live_category (goLiveBody exampleSession) \<in> set categories"
    by simp
  with r f c show ?thesis by blast
qed

end
